theory Spec2Isabelle
  imports Complex_Main "HOL-Library.Word" "HOL-Library.Char_ord" "HOL-Library.List_Lexorder"
begin

section \<open>Queuectl: job model, retry policy, SQLite store and worker settlement\<close>

text \<open>
  The development embeds the dispatch core of the queue:
  \<^item> \<^verbatim>\<open>internal/job/job.go\<close>: the \<^verbatim>\<open>Job\<close> struct and its transition methods;
  \<^item> \<^verbatim>\<open>internal/retry\<close>: \<^verbatim>\<open>CalculateBackoff\<close> and \<^verbatim>\<open>NextRetryTime\<close>;
  \<^item> \<^verbatim>\<open>internal/storage/sqlite.go\<close>: the \<^verbatim>\<open>jobs\<close> table with \<^verbatim>\<open>SaveJob\<close>,
    \<^verbatim>\<open>GetJob\<close>, \<^verbatim>\<open>scanJob\<close> and \<^verbatim>\<open>GetNextPendingJob\<close>;
  \<^item> \<^verbatim>\<open>internal/worker/worker.go\<close>: \<^verbatim>\<open>executeJob\<close>, \<^verbatim>\<open>handleSuccess\<close>, \<^verbatim>\<open>handleFailure\<close>;
  \<^item> \<^verbatim>\<open>pkg/cli\<close>: the \<^verbatim>\<open>enqueue\<close> command.

  Conventions.
  \<^item> Go's \<^verbatim>\<open>int\<close> is a 64-bit word; \<^verbatim>\<open><\<close> on it is the signed comparison and
    \<^verbatim>\<open>++\<close> wraps.
  \<^item> \<^verbatim>\<open>time.Time\<close> is a type parameter \<open>'t\<close>. Every read of the clock
    (\<^verbatim>\<open>time.Now()\<close>) is an explicit argument, and the library functions
    \<^verbatim>\<open>Time.Format(time.RFC3339)\<close>, \<^verbatim>\<open>time.Parse(time.RFC3339, _)\<close>, \<^verbatim>\<open>Time.Add\<close> and
    \<^verbatim>\<open>Time.IsZero\<close> are arguments \<open>fmt\<close>, \<open>parse\<close>, \<open>add\<close> and \<open>is_zero\<close>.
  \<^item> \<^verbatim>\<open>job.State\<close> is a Go string type and is a \<open>string\<close> here.
\<close>

subsection \<open>\<^verbatim>\<open>internal/job/job.go\<close>\<close>

type_synonym goint = "64 word"

definition StatePending :: string where "StatePending = ''pending''"
definition StateProcessing :: string where "StateProcessing = ''processing''"
definition StateCompleted :: string where "StateCompleted = ''completed''"
definition StateFailed :: string where "StateFailed = ''failed''"
definition StateDead :: string where "StateDead = ''dead''"

record 't job =
  ID :: string
  Command :: string
  State :: string
  Attempts :: goint
  MaxRetries :: goint
  CreatedAt :: 't
  UpdatedAt :: 't
  NextRetryAt :: "'t option"
  WorkerID :: string
  Error :: string
  Output :: string

text \<open>\<^verbatim>\<open>NewJob(command, maxRetries)\<close>; the fresh UUID and the clock value are arguments.\<close>

definition NewJob :: "string \<Rightarrow> 't \<Rightarrow> string \<Rightarrow> goint \<Rightarrow> 't job" where
  "NewJob uuid now command maxRetries =
     \<lparr> ID = uuid, Command = command, State = StatePending, Attempts = 0,
       MaxRetries = maxRetries, CreatedAt = now, UpdatedAt = now, NextRetryAt = None,
       WorkerID = [], Error = [], Output = [] \<rparr>"

datatype error =
    ParseError          \<comment> \<open>\<^verbatim>\<open>failed to parse job JSON\<close>\<close>
  | EmptyCommand        \<comment> \<open>\<^verbatim>\<open>command cannot be empty\<close>\<close>
  | NegativeMaxRetries  \<comment> \<open>\<^verbatim>\<open>max_retries cannot be negative\<close>\<close>
  | ErrNoRows           \<comment> \<open>\<^verbatim>\<open>sql.ErrNoRows\<close>\<close>
  | StoreError          \<comment> \<open>any other error reported by the database driver\<close>

text \<open>
  \<^verbatim>\<open>FromJSON(data)\<close>. \<^verbatim>\<open>json.Unmarshal\<close> into a zero \<^verbatim>\<open>Job\<close> is the argument
  \<open>unmarshal\<close>: \<open>None\<close> when it reports an error, otherwise the struct with every
  key absent from the payload left at its zero value.
\<close>

definition FromJSON ::
  "(string \<Rightarrow> 't job option) \<Rightarrow> ('t \<Rightarrow> bool) \<Rightarrow> string \<Rightarrow> 't \<Rightarrow> string \<Rightarrow> error + 't job" where
  "FromJSON unmarshal is_zero uuid now data =
     (case unmarshal data of
        None \<Rightarrow> Inl ParseError
      | Some job0 \<Rightarrow>
          let job1 = (if ID job0 = [] then job0\<lparr>ID := uuid\<rparr> else job0);
              job2 = (if State job1 = [] then job1\<lparr>State := StatePending\<rparr> else job1);
              job3 = (if MaxRetries job2 = 0 then job2\<lparr>MaxRetries := 3\<rparr> else job2);
              job4 = (if is_zero (CreatedAt job3) then job3\<lparr>CreatedAt := now\<rparr> else job3);
              job5 = (if is_zero (UpdatedAt job4) then job4\<lparr>UpdatedAt := now\<rparr> else job4)
          in Inr job5)"

definition Validate :: "'t job \<Rightarrow> error option" where
  "Validate j =
     (if Command j = [] then Some EmptyCommand
      else if MaxRetries j <s 0 then Some NegativeMaxRetries
      else None)"

definition CanRetry :: "'t job \<Rightarrow> bool" where
  "CanRetry j \<longleftrightarrow> Attempts j <s MaxRetries j"

definition MarkAsProcessing :: "'t \<Rightarrow> string \<Rightarrow> 't job \<Rightarrow> 't job" where
  "MarkAsProcessing now workerID j =
     j\<lparr>State := StateProcessing, WorkerID := workerID, UpdatedAt := now\<rparr>"

definition MarkAsCompleted :: "'t \<Rightarrow> string \<Rightarrow> 't job \<Rightarrow> 't job" where
  "MarkAsCompleted now out j =
     j\<lparr>State := StateCompleted, Output := out, UpdatedAt := now\<rparr>"

definition MarkAsFailed :: "'t \<Rightarrow> string \<Rightarrow> 't option \<Rightarrow> 't job \<Rightarrow> 't job" where
  "MarkAsFailed now errMsg nextRetryAt j =
     j\<lparr>State := StateFailed, Error := errMsg, Attempts := Attempts j + 1,
       NextRetryAt := nextRetryAt, UpdatedAt := now, WorkerID := []\<rparr>"

definition MarkAsDead :: "'t \<Rightarrow> string \<Rightarrow> 't job \<Rightarrow> 't job" where
  "MarkAsDead now errMsg j =
     j\<lparr>State := StateDead, Error := errMsg, UpdatedAt := now, WorkerID := []\<rparr>"

definition ResetForRetry :: "'t \<Rightarrow> 't job \<Rightarrow> 't job" where
  "ResetForRetry now j =
     j\<lparr>State := StatePending, Attempts := 0, Error := [], NextRetryAt := None,
       WorkerID := [], UpdatedAt := now\<rparr>"

subsection \<open>\<^verbatim>\<open>internal/retry\<close>\<close>

text \<open>
  \<^verbatim>\<open>time.Duration\<close> is an \<^verbatim>\<open>int64\<close> count of nanoseconds. \<^verbatim>\<open>float64\<close> values are
  modelled by real numbers: \<^verbatim>\<open>math.Pow(base, float64(attempts))\<close> with a non-negative
  integer exponent is the exact power, and rounding of intermediate results is not
  modelled. The conversion \<^verbatim>\<open>time.Duration(delaySeconds)\<close> of a float to \<^verbatim>\<open>int64\<close>
  discards the fraction (truncation towards zero).
\<close>

type_synonym duration = "64 word"

definition Second :: duration where
  "Second = 1000000000"

definition float_to_int64 :: "real \<Rightarrow> 64 word" where
  "float_to_int64 x = word_of_int (if 0 \<le> x then \<lfloor>x\<rfloor> else \<lceil>x\<rceil>)"

definition maxDelaySeconds :: real where
  "maxDelaySeconds = 3600"

definition CalculateBackoff :: "goint \<Rightarrow> real \<Rightarrow> duration" where
  "CalculateBackoff attempts base =
     (let attempts1 = (if attempts <s 0 then 0 else attempts);
          base1 = (if base < 1 then 2 else base);
          delaySeconds = base1 ^ nat (sint attempts1);
          delaySeconds1 = (if delaySeconds > maxDelaySeconds then maxDelaySeconds
                           else delaySeconds)
      in float_to_int64 delaySeconds1 * Second)"

definition NextRetryTime :: "('t \<Rightarrow> duration \<Rightarrow> 't) \<Rightarrow> 't \<Rightarrow> goint \<Rightarrow> real \<Rightarrow> 't" where
  "NextRetryTime add now attempts base = add now (CalculateBackoff attempts base)"

definition GetNextRetryAt :: "('t \<Rightarrow> duration \<Rightarrow> 't) \<Rightarrow> 't \<Rightarrow> goint \<Rightarrow> real \<Rightarrow> 't option" where
  "GetNextRetryAt add now attempts base = Some (NextRetryTime add now attempts base)"

subsection \<open>\<^verbatim>\<open>internal/storage/sqlite.go\<close>\<close>

text \<open>
  The \<^verbatim>\<open>jobs\<close> table is the list of its rows in rowid order. \<^verbatim>\<open>TEXT\<close> and
  \<^verbatim>\<open>DATETIME\<close> columns hold strings, compared bytewise (lexicographically) as SQLite
  does; the nullable columns are options, with \<open>None\<close> for \<^verbatim>\<open>NULL\<close>.
\<close>

record row =
  col_id :: string
  col_command :: string
  col_state :: string
  col_attempts :: goint
  col_max_retries :: goint
  col_created_at :: string
  col_updated_at :: string
  col_next_retry_at :: "string option"
  col_worker_id :: "string option"
  col_error :: "string option"
  col_output :: "string option"

type_synonym table = "row list"

text \<open>The \<^verbatim>\<open>PRIMARY KEY\<close> constraint on \<^verbatim>\<open>id\<close>.\<close>

definition primary_key :: "table \<Rightarrow> bool" where
  "primary_key T \<longleftrightarrow> distinct (map col_id T)"

text \<open>The row of values bound to the \<^verbatim>\<open>INSERT\<close> of \<^verbatim>\<open>SaveJob\<close> (SQL's \<^verbatim>\<open>excluded\<close>).\<close>

definition insert_values :: "('t \<Rightarrow> string) \<Rightarrow> 't job \<Rightarrow> row" where
  "insert_values fmt j =
     \<lparr> col_id = ID j, col_command = Command j, col_state = State j,
       col_attempts = Attempts j, col_max_retries = MaxRetries j,
       col_created_at = fmt (CreatedAt j), col_updated_at = fmt (UpdatedAt j),
       col_next_retry_at = (case NextRetryAt j of None \<Rightarrow> None | Some t \<Rightarrow> Some (fmt t)),
       col_worker_id = Some (WorkerID j), col_error = Some (Error j),
       col_output = Some (Output j) \<rparr>"

text \<open>\<^verbatim>\<open>ON CONFLICT(id) DO UPDATE SET ...\<close>: nine columns are assigned.\<close>

definition do_update_set :: "row \<Rightarrow> row \<Rightarrow> row" where
  "do_update_set excluded r =
     r\<lparr> col_command := col_command excluded,
       col_state := col_state excluded,
       col_attempts := col_attempts excluded,
       col_max_retries := col_max_retries excluded,
       col_updated_at := col_updated_at excluded,
       col_next_retry_at := col_next_retry_at excluded,
       col_worker_id := col_worker_id excluded,
       col_error := col_error excluded,
       col_output := col_output excluded \<rparr>"

definition upsert :: "row \<Rightarrow> table \<Rightarrow> table" where
  "upsert excluded T =
     (if col_id excluded \<in> set (map col_id T)
      then map (\<lambda>r. if col_id r = col_id excluded then do_update_set excluded r else r) T
      else T @ [excluded])"

text \<open>
  \<^verbatim>\<open>SaveJob(j)\<close>. \<open>exec_err\<close> tells whether \<^verbatim>\<open>db.Exec\<close> reports an error, in which
  case nothing is written.
\<close>

definition SaveJob :: "('t \<Rightarrow> string) \<Rightarrow> bool \<Rightarrow> table \<Rightarrow> 't job \<Rightarrow> table \<times> error option" where
  "SaveJob fmt exec_err T j =
     (if exec_err then (T, Some StoreError)
      else (upsert (insert_values fmt j) T, None))"

text \<open>
  \<^verbatim>\<open>scanJob(row)\<close> on a row that was found. The errors of \<^verbatim>\<open>time.Parse\<close> are
  discarded by the source, so \<open>parse\<close> is total.
\<close>

definition scanJob :: "(string \<Rightarrow> 't) \<Rightarrow> row \<Rightarrow> 't job" where
  "scanJob parse r =
     \<lparr> ID = col_id r, Command = col_command r, State = col_state r,
       Attempts = col_attempts r, MaxRetries = col_max_retries r,
       CreatedAt = parse (col_created_at r), UpdatedAt = parse (col_updated_at r),
       NextRetryAt = (case col_next_retry_at r of None \<Rightarrow> None | Some s \<Rightarrow> Some (parse s)),
       WorkerID = (case col_worker_id r of None \<Rightarrow> [] | Some s \<Rightarrow> s),
       Error = (case col_error r of None \<Rightarrow> [] | Some s \<Rightarrow> s),
       Output = (case col_output r of None \<Rightarrow> [] | Some s \<Rightarrow> s) \<rparr>"

text \<open>\<^verbatim>\<open>GetJob(id)\<close>: \<^verbatim>\<open>SELECT ... WHERE id = ?\<close>, then \<^verbatim>\<open>scanJob\<close>.\<close>

definition GetJob :: "(string \<Rightarrow> 't) \<Rightarrow> bool \<Rightarrow> table \<Rightarrow> string \<Rightarrow> error + 't job" where
  "GetJob parse query_err T jid =
     (if query_err then Inl StoreError
      else case find (\<lambda>r. col_id r = jid) T of
             None \<Rightarrow> Inl ErrNoRows
           | Some r \<Rightarrow> Inr (scanJob parse r))"

text \<open>
  The \<^verbatim>\<open>WHERE\<close> clause of the candidate query:
  \<^verbatim>\<open>state = 'pending' OR (state = 'failed' AND next_retry_at <= now)\<close>.
  A comparison with \<^verbatim>\<open>NULL\<close> is not true.
\<close>

definition runnable :: "string \<Rightarrow> row \<Rightarrow> bool" where
  "runnable now r \<longleftrightarrow>
     col_state r = StatePending \<or>
     (col_state r = StateFailed \<and>
      (case col_next_retry_at r of None \<Rightarrow> False | Some t \<Rightarrow> t \<le> now))"

text \<open>
  \<^verbatim>\<open>SELECT ... WHERE ... ORDER BY created_at ASC LIMIT 1\<close>. Rows with equal
  \<^verbatim>\<open>created_at\<close> are kept in table order (a stable sort); SQL leaves that order open.
\<close>

definition select_candidate :: "string \<Rightarrow> table \<Rightarrow> row option" where
  "select_candidate now T =
     (case sort_key col_created_at (filter (runnable now) T) of
        [] \<Rightarrow> None
      | r # rs \<Rightarrow> Some r)"

text \<open>
  \<^verbatim>\<open>UPDATE jobs SET state = 'processing', worker_id = ?, updated_at = ?
  WHERE id = ? AND (state = 'pending' OR state = 'failed')\<close>,
  with the number of rows affected.
\<close>

definition lock_guard :: "string \<Rightarrow> row \<Rightarrow> bool" where
  "lock_guard jid r \<longleftrightarrow>
     col_id r = jid \<and> (col_state r = StatePending \<or> col_state r = StateFailed)"

definition lock_set :: "string \<Rightarrow> string \<Rightarrow> row \<Rightarrow> row" where
  "lock_set workerID now r =
     r\<lparr> col_state := StateProcessing, col_worker_id := Some workerID,
       col_updated_at := now \<rparr>"

definition lock_update :: "string \<Rightarrow> string \<Rightarrow> string \<Rightarrow> table \<Rightarrow> nat \<times> table" where
  "lock_update workerID now jid T =
     (length (filter (lock_guard jid) T),
      map (\<lambda>r. if lock_guard jid r then lock_set workerID now r else r) T)"

text \<open>
  The errors the driver may report inside \<^verbatim>\<open>GetNextPendingJob\<close>, one flag for each
  place where the source checks \<^verbatim>\<open>err != nil\<close>. The database is opened in WAL mode and
  \<^verbatim>\<open>db.Begin()\<close> starts a deferred transaction: when another connection has committed
  after the candidate query, SQLite refuses the \<^verbatim>\<open>UPDATE\<close> and \<^verbatim>\<open>tx.Exec\<close> reports an
  error, which is \<open>exec_err\<close>.
\<close>

record faults =
  begin_err :: bool
  query_err :: bool
  exec_err :: bool
  rows_err :: bool
  commit_err :: bool

definition no_faults :: faults where
  "no_faults = \<lparr> begin_err = False, query_err = False, exec_err = False,
                 rows_err = False, commit_err = False \<rparr>"

text \<open>
  The second half of \<^verbatim>\<open>GetNextPendingJob\<close>, from the \<^verbatim>\<open>UPDATE\<close> on: \<open>j\<close> is the
  candidate that was scanned and \<open>T\<close> the table the \<^verbatim>\<open>UPDATE\<close> runs on. Every
  return before \<^verbatim>\<open>tx.Commit()\<close> runs the deferred \<^verbatim>\<open>tx.Rollback()\<close>, which leaves
  the table as it was.
\<close>

definition lock_candidate ::
  "faults \<Rightarrow> string \<Rightarrow> string \<Rightarrow> table \<Rightarrow> 't job \<Rightarrow> table \<times> (error + 't job option)" where
  "lock_candidate f workerID now T j =
     (if exec_err f then (T, Inl StoreError)
      else let (rows, T') = lock_update workerID now (ID j) T in
        if rows_err f then (T, Inl StoreError)
        else if rows = 0 then (T, Inr None)
        else if commit_err f then (T, Inl StoreError)
        else (T', Inr (Some (j\<lparr>State := StateProcessing, WorkerID := workerID\<rparr>))))"

text \<open>
  The first half of \<^verbatim>\<open>GetNextPendingJob\<close>: \<^verbatim>\<open>db.Begin()\<close>, the candidate query and
  \<^verbatim>\<open>scanJob\<close>. \<^verbatim>\<open>sql.ErrNoRows\<close> is the result \<^verbatim>\<open>(nil, nil)\<close>.
\<close>

definition find_candidate ::
  "(string \<Rightarrow> 't) \<Rightarrow> faults \<Rightarrow> string \<Rightarrow> table \<Rightarrow> error + 't job option" where
  "find_candidate parse f now T =
     (if begin_err f then Inl StoreError
      else if query_err f then Inl StoreError
      else case select_candidate now T of
             None \<Rightarrow> Inr None
           | Some r \<Rightarrow> Inr (Some (scanJob parse r)))"

text \<open>
  \<^verbatim>\<open>GetNextPendingJob(workerID)\<close> with nothing else writing in between: both
  statements see the same table. \<open>now1\<close> and \<open>now2\<close> are the two
  \<^verbatim>\<open>time.Now().Format(time.RFC3339)\<close>.
\<close>

definition GetNextPendingJob ::
  "(string \<Rightarrow> 't) \<Rightarrow> faults \<Rightarrow> string \<Rightarrow> string \<Rightarrow> string \<Rightarrow> table
     \<Rightarrow> table \<times> (error + 't job option)" where
  "GetNextPendingJob parse f workerID now1 now2 T =
     (case find_candidate parse f now1 T of
        Inl e \<Rightarrow> (T, Inl e)
      | Inr None \<Rightarrow> (T, Inr None)
      | Inr (Some j) \<Rightarrow> lock_candidate f workerID now2 T j)"





subsection \<open>\<^verbatim>\<open>internal/worker/worker.go\<close>\<close>

record config =
  cfg_MaxRetries :: goint
  cfg_BackoffBase :: real
  cfg_DBPath :: string
  cfg_WorkerCount :: goint

text \<open>
  \<^verbatim>\<open>handleSuccess\<close> and \<^verbatim>\<open>handleFailure\<close> change the job in memory and save it; an
  error of \<^verbatim>\<open>SaveJob\<close> is only logged. The functions with suffix \<open>_job\<close> are the
  in-memory part, up to the call of \<^verbatim>\<open>SaveJob\<close>.
\<close>

definition handleSuccess_job :: "'t \<Rightarrow> 't job \<Rightarrow> string \<Rightarrow> 't job" where
  "handleSuccess_job now j output = MarkAsCompleted now output j"

definition handleSuccess ::
  "('t \<Rightarrow> string) \<Rightarrow> bool \<Rightarrow> 't \<Rightarrow> table \<Rightarrow> 't job \<Rightarrow> string \<Rightarrow> table \<times> 't job" where
  "handleSuccess fmt save_err now T j output =
     (let j' = handleSuccess_job now j output
      in (fst (SaveJob fmt save_err T j'), j'))"

text \<open>
  \<open>execErr\<close> is the text of the error of \<^verbatim>\<open>cmd.Run()\<close>. \<open>now_retry\<close> is the clock read
  by \<^verbatim>\<open>retry.NextRetryTime\<close>, \<open>now_mark\<close> the one read by \<^verbatim>\<open>MarkAsFailed\<close> or
  \<^verbatim>\<open>MarkAsDead\<close>.
\<close>

definition handleFailure_job ::
  "('t \<Rightarrow> duration \<Rightarrow> 't) \<Rightarrow> config \<Rightarrow> 't \<Rightarrow> 't \<Rightarrow> 't job \<Rightarrow> string \<Rightarrow> string \<Rightarrow> 't job" where
  "handleFailure_job add cfg now_retry now_mark j execErr output =
     (let errMsg = (if output \<noteq> [] then execErr @ [CHR 0x0A] @ ''Output: '' @ output
                    else execErr)
      in if CanRetry j
         then MarkAsFailed now_mark errMsg
                (GetNextRetryAt add now_retry (Attempts j) (cfg_BackoffBase cfg)) j
         else MarkAsDead now_mark errMsg j)"

definition handleFailure ::
  "('t \<Rightarrow> duration \<Rightarrow> 't) \<Rightarrow> ('t \<Rightarrow> string) \<Rightarrow> config \<Rightarrow> bool \<Rightarrow> 't \<Rightarrow> 't \<Rightarrow> table
     \<Rightarrow> 't job \<Rightarrow> string \<Rightarrow> string \<Rightarrow> table \<times> 't job" where
  "handleFailure add fmt cfg save_err now_retry now_mark T j execErr output =
     (let j' = handleFailure_job add cfg now_retry now_mark j execErr output
      in (fst (SaveJob fmt save_err T j'), j'))"

text \<open>
  \<^verbatim>\<open>executeJob(j)\<close>. \<open>run\<close> stands for \<^verbatim>\<open>sh -c\<close>: it maps the command to the error of
  \<^verbatim>\<open>cmd.Run()\<close> (if any), the captured stdout and the captured stderr.
\<close>

definition executeJob ::
  "('t \<Rightarrow> duration \<Rightarrow> 't) \<Rightarrow> ('t \<Rightarrow> string) \<Rightarrow> config \<Rightarrow> (string \<Rightarrow> string option \<times> string \<times> string)
     \<Rightarrow> bool \<Rightarrow> bool \<Rightarrow> 't \<Rightarrow> 't \<Rightarrow> 't \<Rightarrow> string \<Rightarrow> table \<Rightarrow> 't job \<Rightarrow> table \<times> 't job" where
  "executeJob add fmt cfg run save_err1 save_err2 now_start now_retry now_mark workerID T j =
     (let j1 = MarkAsProcessing now_start workerID j;
          (T1, err) = SaveJob fmt save_err1 T j1
      in if err \<noteq> None then (T1, j1)
         else let (execErr, stdout, stderr) = run (Command j1);
                  output = (if stderr \<noteq> [] then stdout @ [CHR 0x0A] @ ''STDERR:'' @ [CHR 0x0A] @ stderr
                            else stdout)
              in case execErr of
                   Some e \<Rightarrow> handleFailure add fmt cfg save_err2 now_retry now_mark T1 j1 e output
                 | None \<Rightarrow> handleSuccess fmt save_err2 now_mark T1 j1 output)"

text \<open>
  One execution that fails, as the worker performs it on a job it has in memory:
  \<^verbatim>\<open>GetNextPendingJob\<close> has stamped \<^verbatim>\<open>State\<close> and \<^verbatim>\<open>WorkerID\<close>, \<^verbatim>\<open>executeJob\<close> calls
  \<^verbatim>\<open>MarkAsProcessing\<close>, the command fails and \<^verbatim>\<open>handleFailure\<close> settles. One clock
  value is used for all reads.
\<close>

definition failed_execution ::
  "('t \<Rightarrow> duration \<Rightarrow> 't) \<Rightarrow> config \<Rightarrow> 't \<Rightarrow> string \<Rightarrow> string \<Rightarrow> string \<Rightarrow> 't job \<Rightarrow> 't job" where
  "failed_execution add cfg now workerID execErr output j =
     handleFailure_job add cfg now now
       (MarkAsProcessing now workerID (j\<lparr>State := StateProcessing, WorkerID := workerID\<rparr>))
       execErr output"

primrec failed_executions ::
  "nat \<Rightarrow> ('t \<Rightarrow> duration \<Rightarrow> 't) \<Rightarrow> config \<Rightarrow> 't \<Rightarrow> string \<Rightarrow> string \<Rightarrow> string \<Rightarrow> 't job \<Rightarrow> 't job" where
  "failed_executions 0 add cfg now workerID execErr output j = j"
| "failed_executions (Suc n) add cfg now workerID execErr output j =
     failed_execution add cfg now workerID execErr output
       (failed_executions n add cfg now workerID execErr output j)"

subsection \<open>\<^verbatim>\<open>pkg/cli\<close>: the \<^verbatim>\<open>enqueue\<close> command\<close>

text \<open>
  The \<^verbatim>\<open>RunE\<close> function of \<^verbatim>\<open>enqueueCmd\<close> on its one argument: the new table and
  either the error or the job that was saved. \<open>cfg\<close> is \<^verbatim>\<open>getConfig()\<close>.
\<close>

definition enqueueCmd ::
  "(string \<Rightarrow> 't job option) \<Rightarrow> ('t \<Rightarrow> bool) \<Rightarrow> ('t \<Rightarrow> string) \<Rightarrow> config \<Rightarrow> bool \<Rightarrow> string \<Rightarrow> 't
     \<Rightarrow> table \<Rightarrow> string \<Rightarrow> table \<times> (error + 't job)" where
  "enqueueCmd unmarshal is_zero fmt cfg save_err uuid now T arg =
     (case FromJSON unmarshal is_zero uuid now arg of
        Inl e \<Rightarrow> (T, Inl e)
      | Inr j \<Rightarrow>
          (case Validate j of
             Some e \<Rightarrow> (T, Inl e)
           | None \<Rightarrow>
               (let j' = (if MaxRetries j = 0 then j\<lparr>MaxRetries := cfg_MaxRetries cfg\<rparr>
                          else j);
                    (T', err) = SaveJob fmt save_err T j'
                in (case err of
                      Some e \<Rightarrow> (T', Inl e)
                    | None \<Rightarrow> (T', Inr j')))))"

subsection \<open>Example data\<close>

text \<open>
  A small instance of the parameters, used to run the definitions on concrete
  inputs: instants are natural numbers (seconds), the textual form of an instant is
  that many strokes (so that the order of the texts is the order of the instants), and
  adding a duration adds its whole seconds.
\<close>

definition demo_fmt :: "nat \<Rightarrow> string" where
  "demo_fmt n = replicate n (CHR ''I'')"

definition demo_parse :: "string \<Rightarrow> nat" where
  "demo_parse s = length s"

definition demo_add :: "nat \<Rightarrow> duration \<Rightarrow> nat" where
  "demo_add t d = t + unat d div 1000000000"

definition demo_is_zero :: "nat \<Rightarrow> bool" where
  "demo_is_zero t \<longleftrightarrow> t = 0"

definition demo_cfg :: config where
  "demo_cfg = \<lparr> cfg_MaxRetries = 5, cfg_BackoffBase = 2, cfg_DBPath = ''queuectl.db'',
                cfg_WorkerCount = 1 \<rparr>"

text \<open>A job being processed for the first time, with one retry allowed.\<close>

definition demo_processing :: "nat job" where
  "demo_processing =
     \<lparr> ID = ''j1'', Command = ''exit 1'', State = StateProcessing, Attempts = 0,
       MaxRetries = 1, CreatedAt = 1, UpdatedAt = 2, NextRetryAt = None,
       WorkerID = ''w1'', Error = [], Output = [] \<rparr>"

text \<open>A job being processed again after one failure.\<close>

definition demo_retried :: "nat job" where
  "demo_retried =
     \<lparr> ID = ''j2'', Command = ''make'', State = StateProcessing, Attempts = 1,
       MaxRetries = 3, CreatedAt = 1, UpdatedAt = 6, NextRetryAt = Some 5,
       WorkerID = ''w1'', Error = ''exit status 1'', Output = [] \<rparr>"

text \<open>
  A table of four jobs. In table order: \<open>a\<close> is completed; \<open>c\<close> is pending, created at
  4; \<open>b\<close> has failed once, was created at 2 and may be retried from 4 on; \<open>d\<close> has
  failed twice, was created at 1 and may be retried from 9 on.
\<close>

definition demo_table :: table where
  "demo_table =
     [ \<lparr> col_id = ''a'', col_command = ''echo a'', col_state = StateCompleted, col_attempts = 0,
         col_max_retries = 3, col_created_at = demo_fmt 1, col_updated_at = demo_fmt 2,
         col_next_retry_at = None, col_worker_id = Some ''w0'', col_error = Some [],
         col_output = Some ''a'' \<rparr>,
       \<lparr> col_id = ''c'', col_command = ''echo c'', col_state = StatePending, col_attempts = 0,
         col_max_retries = 3, col_created_at = demo_fmt 4, col_updated_at = demo_fmt 4,
         col_next_retry_at = None, col_worker_id = Some [], col_error = Some [],
         col_output = Some [] \<rparr>,
       \<lparr> col_id = ''b'', col_command = ''exit 1'', col_state = StateFailed, col_attempts = 1,
         col_max_retries = 3, col_created_at = demo_fmt 2, col_updated_at = demo_fmt 3,
         col_next_retry_at = Some (demo_fmt 4), col_worker_id = Some [],
         col_error = Some ''exit status 1'', col_output = Some [] \<rparr>,
       \<lparr> col_id = ''d'', col_command = ''exit 2'', col_state = StateFailed, col_attempts = 2,
         col_max_retries = 3, col_created_at = demo_fmt 1, col_updated_at = demo_fmt 3,
         col_next_retry_at = Some (demo_fmt 9), col_worker_id = Some [],
         col_error = Some ''exit status 2'', col_output = Some [] \<rparr> ]"

text \<open>The jobs scanned from rows \<open>b\<close> and \<open>c\<close>, and the table after each is claimed.\<close>

definition demo_job_b :: "nat job" where
  "demo_job_b = scanJob demo_parse (demo_table ! 2)"

definition demo_job_c :: "nat job" where
  "demo_job_c = scanJob demo_parse (demo_table ! 1)"

definition demo_table1 :: table where
  "demo_table1 = demo_table[2 := lock_set ''wA'' (demo_fmt 6) (demo_table ! 2)]"




text \<open>Job \<open>c\<close> saved again with other timestamps.\<close>

definition demo_resave :: "nat job" where
  "demo_resave = demo_job_c\<lparr>CreatedAt := 9, UpdatedAt := 9\<rparr>"

text \<open>The payload \<^verbatim>\<open>{"command":"echo hi"}\<close> and what \<^verbatim>\<open>json.Unmarshal\<close> makes of it.\<close>

definition demo_payload :: string where
  "demo_payload = ''{'' @ [CHR 0x22] @ ''command'' @ [CHR 0x22] @ '':'' @
                  [CHR 0x22] @ ''echo hi'' @ [CHR 0x22] @ ''}''"

definition demo_unmarshal :: "string \<Rightarrow> nat job option" where
  "demo_unmarshal s =
     (if s = demo_payload
      then Some \<lparr> ID = [], Command = ''echo hi'', State = [], Attempts = 0, MaxRetries = 0,
                  CreatedAt = 0, UpdatedAt = 0, NextRetryAt = None, WorkerID = [],
                  Error = [], Output = [] \<rparr>
      else None)"

section \<open>Auxiliary facts\<close>

subsection \<open>States\<close>

lemmas State_defs =
  StatePending_def StateProcessing_def StateCompleted_def StateFailed_def StateDead_def

lemma state_neqs:
  "StateFailed \<noteq> StateDead" "StatePending \<noteq> StateProcessing" "StateFailed \<noteq> StateProcessing"
  "StateDead \<noteq> StateFailed" "StateProcessing \<noteq> StatePending" "StateProcessing \<noteq> StateFailed"
  "StatePending \<noteq> StateFailed" "StateFailed \<noteq> StatePending"
  by (simp_all add: State_defs)

subsection \<open>Signed 64-bit counters\<close>

text \<open>Below the maximum, \<^verbatim>\<open>++\<close> does not wrap.\<close>

lemma sint64_succ:
  fixes a b :: "64 word"
  assumes "a <s b"
  shows "sint (a + 1) = sint a + 1"
proof -
  have "sint a < sint b" using assms by (simp add: word_sless_alt)
  moreover have "sint b < 2 ^ 63" using sint_lt[of b] by simp
  moreover have "- (2 ^ 63) \<le> sint a" using sint_ge[of a] by simp
  ultimately have "signed_take_bit 63 (sint a + 1) = sint a + 1"
    by (intro signed_take_bit_int_eq_self) auto
  then show ?thesis by (simp add: sint_word_ariths)
qed

lemma sless_succ_sle:
  fixes a b :: "64 word"
  assumes "a <s b"
  shows "a + 1 \<le>s b"
  using assms sint64_succ[OF assms] by (simp add: word_sle_eq word_sless_alt)

lemma sint_of_nat_small:
  assumes "k < 2 ^ 63"
  shows "sint (of_nat k :: 64 word) = int k"
proof -
  have "signed_take_bit 63 (int k) = int k"
    using assms by (intro signed_take_bit_int_eq_self) auto
  then show ?thesis
    by (simp add: signed_of_nat)
qed

lemma unat_lt_of_nonneg:
  fixes R :: "64 word"
  assumes "0 \<le>s R"
  shows "unat R < 2 ^ 63" and "sint R = int (unat R)"
proof -
  have 0: "0 \<le> sint R" using assms by (simp add: word_sle_eq)
  have 1: "sint R < 2 ^ 63" using sint_lt[of R] by simp
  have "uint R = take_bit 64 (sint R)" using uint_sint[of R] by simp
  also have "\<dots> = sint R" using 0 1 by (simp add: take_bit_int_eq_self)
  finally have "uint R = sint R" .
  then show 2: "sint R = int (unat R)" by simp
  from 1 2 have "int (unat R) < 2 ^ 63" by simp
  then show "unat R < 2 ^ 63" by (simp only: of_nat_less_numeral_power_cancel_iff)
qed

lemma of_nat_sless_iff:
  fixes R :: "64 word"
  assumes "0 \<le>s R" and "k \<le> unat R"
  shows "(of_nat k :: 64 word) <s R \<longleftrightarrow> k < unat R"
proof -
  have "k < 2 ^ 63" using assms(2) unat_lt_of_nonneg(1)[OF assms(1)] by simp
  then have "sint (of_nat k :: 64 word) = int k" by (rule sint_of_nat_small)
  moreover have "sint R = int (unat R)" by (rule unat_lt_of_nonneg(2)[OF assms(1)])
  ultimately show ?thesis
    by (simp only: word_sless_alt of_nat_less_iff)
qed

subsection \<open>Lookup by id\<close>

lemma find_map_same_id:
  assumes "\<And>r. col_id (g r) = col_id r"
  shows "find (\<lambda>r. col_id r = k) (map (\<lambda>r. if P r then g r else r) T)
         = map_option (\<lambda>r. if P r then g r else r) (find (\<lambda>r. col_id r = k) T)"
  using assms by (induction T) auto

lemma find_append_absent:
  "k \<notin> set (map col_id T) \<Longrightarrow> find (\<lambda>r. col_id r = k) (T @ [e]) = (if col_id e = k then Some e else None)"
  by (induction T) auto

lemma find_None_absent: "find (\<lambda>r. col_id r = k) T = None \<longleftrightarrow> k \<notin> set (map col_id T)"
  by (induction T) auto

lemma col_id_do_update_set: "col_id (do_update_set e r) = col_id r"
  by (simp add: do_update_set_def)

lemma find_upsert:
  "find (\<lambda>r. col_id r = col_id e) (upsert e T) =
     Some (case find (\<lambda>r. col_id r = col_id e) T of None \<Rightarrow> e | Some r \<Rightarrow> do_update_set e r)"
proof (cases "col_id e \<in> set (map col_id T)")
  case True
  then obtain r where r: "find (\<lambda>r. col_id r = col_id e) T = Some r"
    using find_None_absent[of "col_id e" T] by (cases "find (\<lambda>r. col_id r = col_id e) T") auto
  then have "col_id r = col_id e" by (auto dest: find_Some_iff[THEN iffD1])
  with True r show ?thesis
    by (simp add: upsert_def find_map_same_id[where g="do_update_set e", OF col_id_do_update_set])
next
  case False
  then show ?thesis
    using find_None_absent[of "col_id e" T] by (simp add: upsert_def find_append_absent)
qed

lemma find_other_map:
  "k \<noteq> k' \<Longrightarrow> (\<And>r. col_id (g r) = col_id r) \<Longrightarrow>
   find (\<lambda>r. col_id r = k) (map (\<lambda>r. if col_id r = k' then g r else r) T) = find (\<lambda>r. col_id r = k) T"
  by (induction T) auto

lemma find_other_append:
  "k \<noteq> col_id e \<Longrightarrow> find (\<lambda>r. col_id r = k) (T @ [e]) = find (\<lambda>r. col_id r = k) T"
  by (induction T) auto

lemma find_upsert_other:
  "k \<noteq> col_id e \<Longrightarrow> find (\<lambda>r. col_id r = k) (upsert e T) = find (\<lambda>r. col_id r = k) T"
  by (simp add: upsert_def find_other_map col_id_do_update_set find_other_append)

lemma find_SaveJob:
  "find (\<lambda>r. col_id r = ID j) (fst (SaveJob fmt False T j)) =
     Some (case find (\<lambda>r. col_id r = ID j) T of
             None \<Rightarrow> insert_values fmt j
           | Some r \<Rightarrow> do_update_set (insert_values fmt j) r)"
proof -
  have "col_id (insert_values fmt j) = ID j" by (simp add: insert_values_def)
  with find_upsert[of "insert_values fmt j" T] show ?thesis
    by (simp add: SaveJob_def)
qed

lemma saved_columns:
  assumes "r' = (case r of None \<Rightarrow> insert_values fmt j
                 | Some r0 \<Rightarrow> do_update_set (insert_values fmt j) r0)"
  shows "col_command r' = Command j" "col_state r' = State j" "col_attempts r' = Attempts j"
    "col_max_retries r' = MaxRetries j" "col_updated_at r' = fmt (UpdatedAt j)"
    "col_next_retry_at r' = map_option fmt (NextRetryAt j)"
    "col_worker_id r' = Some (WorkerID j)" "col_error r' = Some (Error j)"
    "col_output r' = Some (Output j)"
  using assms
  by (cases r; simp add: insert_values_def do_update_set_def map_option_case)+

lemma scanJob_saved:
  assumes "r' = (case r of None \<Rightarrow> insert_values fmt j
                 | Some r0 \<Rightarrow> do_update_set (insert_values fmt j) r0)"
  shows "Command (scanJob parse r') = Command j" "State (scanJob parse r') = State j"
    "Attempts (scanJob parse r') = Attempts j" "MaxRetries (scanJob parse r') = MaxRetries j"
    "WorkerID (scanJob parse r') = WorkerID j" "Error (scanJob parse r') = Error j"
    "Output (scanJob parse r') = Output j"
    "UpdatedAt (scanJob parse r') = parse (fmt (UpdatedAt j))"
    "NextRetryAt (scanJob parse r') = map_option (\<lambda>t. parse (fmt t)) (NextRetryAt j)"
  using saved_columns[OF assms]
  by (cases "NextRetryAt j"; simp add: scanJob_def)+

subsection \<open>The primary key\<close>

lemma primary_key_unique:
  "primary_key T \<Longrightarrow> r \<in> set T \<Longrightarrow> c \<in> set T \<Longrightarrow> col_id r = col_id c \<Longrightarrow> r = c"
  by (auto simp: primary_key_def distinct_map dest: inj_onD)

lemma primary_key_distinct: "primary_key T \<Longrightarrow> distinct T"
  by (simp add: primary_key_def distinct_map)

lemma find_by_primary_key:
  assumes "primary_key T" and "c \<in> set T"
  shows "find (\<lambda>r. col_id r = col_id c) T = Some c"
proof -
  have "find (\<lambda>r. col_id r = col_id c) T \<noteq> None"
    using assms(2) find_None_absent[of "col_id c" T] by auto
  then obtain r where r: "find (\<lambda>r. col_id r = col_id c) T = Some r" by blast
  then have "r \<in> set T" "col_id r = col_id c"
    by (auto simp: find_Some_iff)
  with primary_key_unique[OF assms(1) _ assms(2)] r show ?thesis by simp
qed


subsection \<open>The candidate query and the conditional update\<close>

lemma select_candidate_None:
  "select_candidate now T = None \<longleftrightarrow> \<not> (\<exists>r \<in> set T. runnable now r)"
proof -
  have "sort_key col_created_at (filter (runnable now) T) = [] \<longleftrightarrow>
        filter (runnable now) T = []"
    using length_sort[of col_created_at "filter (runnable now) T"] by (metis length_0_conv)
  then show ?thesis
    by (auto simp: select_candidate_def filter_empty_conv split: list.splits)
qed

lemma select_candidate_Some:
  assumes "select_candidate now T = Some c"
  shows "c \<in> set T" and "runnable now c"
    and "\<And>r. r \<in> set T \<Longrightarrow> runnable now r \<Longrightarrow> col_created_at c \<le> col_created_at r"
proof -
  let ?xs = "filter (runnable now) T"
  from assms obtain rs where s: "sort_key col_created_at ?xs = c # rs"
    by (auto simp: select_candidate_def split: list.splits)
  have "set (sort_key col_created_at ?xs) = set ?xs" by simp
  with s have mem: "set ?xs = insert c (set rs)" by simp
  then have "c \<in> set ?xs" by blast
  then show "c \<in> set T" and "runnable now c" by simp_all
  have "sorted (map col_created_at (sort_key col_created_at ?xs))" by (rule sorted_sort_key)
  with s have le: "\<forall>r \<in> set rs. col_created_at c \<le> col_created_at r" by simp
  fix r assume "r \<in> set T" "runnable now r"
  then have "r \<in> set ?xs" by simp
  with mem le show "col_created_at c \<le> col_created_at r" by auto
qed

lemma runnable_lockable:
  "runnable now r \<Longrightarrow> col_state r = StatePending \<or> col_state r = StateFailed"
  by (auto simp: runnable_def)

lemma lock_guard_candidate:
  assumes "primary_key T" "c \<in> set T" "runnable now c" "r \<in> set T"
  shows "lock_guard (col_id c) r \<longleftrightarrow> col_id r = col_id c"
  using assms primary_key_unique[OF assms(1) assms(4) assms(2)] runnable_lockable[OF assms(3)]
  by (auto simp: lock_guard_def)

lemma lock_update_candidate:
  assumes "primary_key T" "c \<in> set T" "runnable now c"
  shows "lock_update w now2 (col_id c) T =
           (1, map (\<lambda>r. if col_id r = col_id c then lock_set w now2 r else r) T)"
proof -
  have g: "\<And>r. r \<in> set T \<Longrightarrow> lock_guard (col_id c) r \<longleftrightarrow> r = c"
    using lock_guard_candidate[OF assms] primary_key_unique[OF assms(1) _ assms(2)] by blast
  then have "filter (lock_guard (col_id c)) T = filter (\<lambda>r. r = c) T"
    by (intro filter_cong) auto
  moreover have "length (filter (\<lambda>r. r = c) T) = 1"
    using primary_key_distinct[OF assms(1)] assms(2)
    by (simp add: distinct_length_filter)
  moreover have "map (\<lambda>r. if lock_guard (col_id c) r then lock_set w now2 r else r) T
               = map (\<lambda>r. if col_id r = col_id c then lock_set w now2 r else r) T"
    using lock_guard_candidate[OF assms] by (intro map_cong) auto
  ultimately show ?thesis by (simp add: lock_update_def)
qed

lemma ID_scanJob: "ID (scanJob parse r) = col_id r"
  by (simp add: scanJob_def)

lemma lock_candidate_no_faults:
  "lock_candidate no_faults w now T j =
     (if fst (lock_update w now (ID j) T) = 0 then (T, Inr None)
      else (snd (lock_update w now (ID j) T),
            Inr (Some (j\<lparr>State := StateProcessing, WorkerID := w\<rparr>))))"
  by (simp add: lock_candidate_def no_faults_def split: prod.splits)

lemma find_candidate_no_faults:
  "find_candidate parse no_faults now T =
     (case select_candidate now T of None \<Rightarrow> Inr None | Some r \<Rightarrow> Inr (Some (scanJob parse r)))"
  by (simp add: find_candidate_def no_faults_def)

lemma lock_candidate_result:
  assumes "lock_candidate f w now T j = (T', res)"
  shows "(T' = T \<and> (\<forall>j'. res \<noteq> Inr (Some j'))) \<or>
         (T' = map (\<lambda>r. if lock_guard (ID j) r then lock_set w now r else r) T \<and>
          res = Inr (Some (j\<lparr>State := StateProcessing, WorkerID := w\<rparr>)) \<and>
          (\<exists>r \<in> set T. lock_guard (ID j) r))"
proof -
  have pos: "length (filter (lock_guard (ID j)) T) \<noteq> 0 \<Longrightarrow> \<exists>r \<in> set T. lock_guard (ID j) r"
    by (auto simp: filter_empty_conv)
  show ?thesis
    using assms pos
    by (auto simp: lock_candidate_def lock_update_def Let_def split: if_splits)
qed

lemma GetNextPendingJob_claims:
  assumes pk: "primary_key T" and c: "select_candidate now1 T = Some c"
  shows "GetNextPendingJob parse no_faults w now1 now2 T =
           (map (\<lambda>r. if col_id r = col_id c then lock_set w now2 r else r) T,
            Inr (Some ((scanJob parse c)\<lparr>State := StateProcessing, WorkerID := w\<rparr>)))"
  using lock_update_candidate[OF pk select_candidate_Some(1,2)[OF c], of w now2]
  by (simp add: GetNextPendingJob_def find_candidate_no_faults c lock_candidate_no_faults ID_scanJob)

lemma GetNextPendingJob_none:
  assumes "select_candidate now1 T = None"
  shows "GetNextPendingJob parse no_faults w now1 now2 T = (T, Inr None)"
  using assms by (simp add: GetNextPendingJob_def find_candidate_no_faults)

lemma GetNextPendingJob_success:
  assumes "GetNextPendingJob parse f w now1 now2 T = (T', Inr (Some j'))"
  obtains c where "select_candidate now1 T = Some c"
    and "T' = map (\<lambda>r. if lock_guard (col_id c) r then lock_set w now2 r else r) T"
    and "j' = (scanJob parse c)\<lparr>State := StateProcessing, WorkerID := w\<rparr>"
proof -
  from assms obtain j0 where fc: "find_candidate parse f now1 T = Inr (Some j0)"
    and lc: "lock_candidate f w now2 T j0 = (T', Inr (Some j'))"
    by (auto simp: GetNextPendingJob_def split: sum.splits option.splits)
  from fc obtain c where c: "select_candidate now1 T = Some c" "j0 = scanJob parse c"
    by (auto simp: find_candidate_def split: if_splits option.splits)
  from lock_candidate_result[OF lc] c(2)
  have "T' = map (\<lambda>r. if lock_guard (col_id c) r then lock_set w now2 r else r) T"
    "j' = (scanJob parse c)\<lparr>State := StateProcessing, WorkerID := w\<rparr>"
    by (auto simp: ID_scanJob)
  with c(1) that show thesis by blast
qed

text \<open>
  \<^verbatim>\<open>GetNextPendingJob\<close> when the driver reports no error and nothing is written
  between its two statements: if a runnable row exists, a runnable row \<open>c\<close> of least
  \<^verbatim>\<open>created_at\<close> is taken, the update affects one row, the table changes in exactly the
  row of that id and the scanned job is returned with \<^verbatim>\<open>State\<close> and \<^verbatim>\<open>WorkerID\<close>
  stamped; otherwise the result is \<^verbatim>\<open>(nil, nil)\<close> and the table is unchanged.
\<close>

lemma GetNextPendingJob_without_faults:
  assumes pk: "primary_key T"
  shows
    "((\<exists>r \<in> set T. runnable now1 r) \<longrightarrow>
        (\<exists>c \<in> set T. runnable now1 c \<and>
           (\<forall>r \<in> set T. runnable now1 r \<longrightarrow> col_created_at c \<le> col_created_at r) \<and>
           fst (lock_update w now2 (col_id c) T) = 1 \<and>
           GetNextPendingJob parse no_faults w now1 now2 T =
             (map (\<lambda>r. if col_id r = col_id c
                        then r\<lparr>col_state := StateProcessing, col_worker_id := Some w,
                               col_updated_at := now2\<rparr>
                        else r) T,
              Inr (Some ((scanJob parse c)\<lparr>State := StateProcessing, WorkerID := w\<rparr>))))) \<and>
     (\<not> (\<exists>r \<in> set T. runnable now1 r) \<longrightarrow>
        GetNextPendingJob parse no_faults w now1 now2 T = (T, Inr None)) \<and>
     (snd (GetNextPendingJob parse no_faults w now1 now2 T) = Inr None
        \<longleftrightarrow> \<not> (\<exists>r \<in> set T. runnable now1 r))"
proof (intro conjI)
  show "(\<exists>r \<in> set T. runnable now1 r) \<longrightarrow>
        (\<exists>c \<in> set T. runnable now1 c \<and>
           (\<forall>r \<in> set T. runnable now1 r \<longrightarrow> col_created_at c \<le> col_created_at r) \<and>
           fst (lock_update w now2 (col_id c) T) = 1 \<and>
           GetNextPendingJob parse no_faults w now1 now2 T =
             (map (\<lambda>r. if col_id r = col_id c
                        then r\<lparr>col_state := StateProcessing, col_worker_id := Some w,
                               col_updated_at := now2\<rparr>
                        else r) T,
              Inr (Some ((scanJob parse c)\<lparr>State := StateProcessing, WorkerID := w\<rparr>))))"
  proof
    assume "\<exists>r \<in> set T. runnable now1 r"
    then obtain c where c: "select_candidate now1 T = Some c"
      using select_candidate_None[of now1 T] by (cases "select_candidate now1 T") auto
    note sel = select_candidate_Some[OF c]
    have "fst (lock_update w now2 (col_id c) T) = 1"
      using lock_update_candidate[OF pk sel(1,2), of w now2] by simp
    moreover have "GetNextPendingJob parse no_faults w now1 now2 T =
             (map (\<lambda>r. if col_id r = col_id c
                        then r\<lparr>col_state := StateProcessing, col_worker_id := Some w,
                               col_updated_at := now2\<rparr>
                        else r) T,
              Inr (Some ((scanJob parse c)\<lparr>State := StateProcessing, WorkerID := w\<rparr>)))"
      using GetNextPendingJob_claims[OF pk c, of parse w now2] by (simp add: lock_set_def)
    ultimately show "\<exists>c \<in> set T. runnable now1 c \<and>
           (\<forall>r \<in> set T. runnable now1 r \<longrightarrow> col_created_at c \<le> col_created_at r) \<and>
           fst (lock_update w now2 (col_id c) T) = 1 \<and>
           GetNextPendingJob parse no_faults w now1 now2 T =
             (map (\<lambda>r. if col_id r = col_id c
                        then r\<lparr>col_state := StateProcessing, col_worker_id := Some w,
                               col_updated_at := now2\<rparr>
                        else r) T,
              Inr (Some ((scanJob parse c)\<lparr>State := StateProcessing, WorkerID := w\<rparr>)))"
      using sel by blast
  qed
next
  show "\<not> (\<exists>r \<in> set T. runnable now1 r) \<longrightarrow>
        GetNextPendingJob parse no_faults w now1 now2 T = (T, Inr None)"
    using GetNextPendingJob_none[of now1 T parse w now2] select_candidate_None[of now1 T] by simp
next
  show "snd (GetNextPendingJob parse no_faults w now1 now2 T) = Inr None
        \<longleftrightarrow> \<not> (\<exists>r \<in> set T. runnable now1 r)"
  proof (cases "select_candidate now1 T")
    case None
    then show ?thesis
      using GetNextPendingJob_none[OF None, of parse w now2] select_candidate_None[of now1 T]
      by simp
  next
    case (Some c)
    then show ?thesis
      using GetNextPendingJob_claims[OF pk Some, of parse w now2] select_candidate_None[of now1 T]
      by simp
  qed
qed

subsection \<open>Interleaved callers\<close>











subsection \<open>Failed executions\<close>

text \<open>
  \<open>failed_execution\<close> is what \<^verbatim>\<open>executeJob\<close> leaves in memory when the command fails
  (with empty stderr) and the first save succeeds.
\<close>

lemma executeJob_failure:
  assumes "run (Command j) = (Some e, out, [])"
  shows "snd (executeJob add fmt cfg run False save_err2 now now now w T
                (j\<lparr>State := StateProcessing, WorkerID := w\<rparr>))
         = failed_execution add cfg now w e out j"
  using assms
  by (simp add: executeJob_def failed_execution_def handleFailure_def SaveJob_def
      MarkAsProcessing_def Let_def)

lemma failed_execution_MaxRetries:
  "MaxRetries (failed_execution add cfg now w e out j) = MaxRetries j"
  by (simp add: failed_execution_def handleFailure_job_def MarkAsProcessing_def
      MarkAsFailed_def MarkAsDead_def CanRetry_def Let_def)

lemma failed_execution_retry:
  "Attempts j <s MaxRetries j \<Longrightarrow>
   State (failed_execution add cfg now w e out j) = StateFailed \<and>
   Attempts (failed_execution add cfg now w e out j) = Attempts j + 1"
  by (simp add: failed_execution_def handleFailure_job_def MarkAsProcessing_def
      MarkAsFailed_def CanRetry_def Let_def)

lemma failed_execution_dead:
  "\<not> Attempts j <s MaxRetries j \<Longrightarrow>
   State (failed_execution add cfg now w e out j) = StateDead \<and>
   Attempts (failed_execution add cfg now w e out j) = Attempts j"
  by (simp add: failed_execution_def handleFailure_job_def MarkAsProcessing_def
      MarkAsDead_def CanRetry_def Let_def)

lemma failed_executions_upto:
  assumes "0 \<le>s MaxRetries j" and "Attempts j = 0"
  shows "k \<le> unat (MaxRetries j) \<Longrightarrow>
         Attempts (failed_executions k add cfg now w e out j) = of_nat k \<and>
         MaxRetries (failed_executions k add cfg now w e out j) = MaxRetries j \<and>
         (0 < k \<longrightarrow> State (failed_executions k add cfg now w e out j) = StateFailed)"
proof (induction k)
  case 0
  then show ?case using assms by simp
next
  case (Suc k)
  let ?p = "failed_executions k add cfg now w e out j"
  from Suc have IH: "Attempts ?p = of_nat k" "MaxRetries ?p = MaxRetries j" by simp_all
  have "k \<le> unat (MaxRetries j)" "k < unat (MaxRetries j)" using Suc.prems by simp_all
  then have "Attempts ?p <s MaxRetries ?p"
    using of_nat_sless_iff[OF assms(1), of k] IH by simp
  from failed_execution_retry[OF this, of add cfg now w e out] IH
  show ?case by (simp add: failed_execution_MaxRetries)
qed

lemma failed_executions_final:
  assumes "0 \<le>s MaxRetries j" and "Attempts j = 0"
  shows "State (failed_executions (unat (MaxRetries j) + 1) add cfg now w e out j) = StateDead \<and>
         Attempts (failed_executions (unat (MaxRetries j) + 1) add cfg now w e out j) = MaxRetries j"
proof -
  let ?p = "failed_executions (unat (MaxRetries j)) add cfg now w e out j"
  have IH: "Attempts ?p = MaxRetries j" "MaxRetries ?p = MaxRetries j"
    using failed_executions_upto[OF assms, of "unat (MaxRetries j)" add cfg now w e out] by simp_all
  then have "\<not> Attempts ?p <s MaxRetries ?p" by simp
  from failed_execution_dead[OF this, of add cfg now w e out] IH
  show ?thesis by simp
qed

subsection \<open>The backoff delay in whole seconds\<close>

text \<open>
  With \<^verbatim>\<open>float64\<close> read as real numbers, the delay is the whole number of seconds
  in \<^verbatim>\<open>min(base^attempts, 3600)\<close>, after the clamping of both arguments.
\<close>

lemma CalculateBackoff_whole_seconds:
  "CalculateBackoff attempts base =
     word_of_int \<lfloor>min ((if base < 1 then 2 else base) ^
                        nat (sint (if attempts <s 0 then 0 else attempts))) 3600\<rfloor> * Second"
proof -
  define b where "b = (if base < 1 then 2 else base)"
  define n where "n = nat (sint (if attempts <s 0 then 0 else attempts))"
  have "1 \<le> b" by (simp add: b_def)
  then have "1 \<le> b ^ n" by (rule one_le_power)
  then have pos: "0 \<le> min (b ^ n) 3600" by simp
  have "(if b ^ n > 3600 then 3600 else b ^ n) = min (b ^ n) 3600" by (simp add: min_def)
  with pos show ?thesis
    unfolding CalculateBackoff_def Let_def maxDelaySeconds_def float_to_int64_def
    by (simp add: b_def n_def)
qed

subsection \<open>The default of \<^verbatim>\<open>max_retries\<close>\<close>

text \<open>
  A payload without \<^verbatim>\<open>max_retries\<close> (or with 0) and with a command is saved with
  \<^verbatim>\<open>max_retries = 3\<close>, whatever the configuration says.
\<close>

lemma enqueueCmd_absent_max_retries:
  assumes "unmarshal arg = Some j0" and "MaxRetries j0 = 0" and "Command j0 \<noteq> []"
  shows "\<exists>j. snd (enqueueCmd unmarshal is_zero fmt cfg False uuid now T arg) = Inr j \<and>
             MaxRetries j = 3 \<and> ID j = (if ID j0 = [] then uuid else ID j0)"
  using assms
  by (simp add: enqueueCmd_def FromJSON_def Validate_def SaveJob_def Let_def word_sless_alt)

subsection \<open>The example run\<close>

lemma demo_pk: "primary_key demo_table"
  by (simp add: primary_key_def demo_table_def)

lemma demo_runnable: "\<exists>r \<in> set demo_table. runnable (demo_fmt 5) r"
  by code_simp

lemma demo_claim_b:
  "GetNextPendingJob demo_parse no_faults ''wA'' (demo_fmt 5) (demo_fmt 6) demo_table =
     (demo_table1, Inr (Some (demo_job_b\<lparr>State := StateProcessing, WorkerID := ''wA''\<rparr>)))"
  by code_simp







section \<open>The claims\<close>

subsection \<open>C1: claiming the next runnable job\<close>

text \<open>
  C1, at a lost race on the example table. Callers \<open>wA\<close> and \<open>wB\<close> both query at time 5
  and both get \<open>b\<close> as candidate. \<open>wA\<close> updates and commits first. The \<^verbatim>\<open>UPDATE\<close> of
  \<open>wB\<close> would now affect no row, which is the case the test \<^verbatim>\<open>rows == 0\<close> is written
  for; but \<open>wB\<close> is in a deferred transaction that has read the table as it was before
  the commit of \<open>wA\<close>, SQLite refuses to let it write, and \<^verbatim>\<open>tx.Exec\<close> reports an error.
  The call of \<open>wB\<close> returns that error (\<^verbatim>\<open>failed to lock job\<close>), not \<^verbatim>\<open>(nil, nil)\<close>, and
  the test \<^verbatim>\<open>rows == 0\<close> is not reached.
\<close>

theorem C1_lost_race_is_an_error:
  "find_candidate demo_parse no_faults (demo_fmt 5) demo_table = Inr (Some demo_job_b) \<and>
   lock_candidate no_faults ''wA'' (demo_fmt 6) demo_table demo_job_b =
     (demo_table1, Inr (Some (demo_job_b\<lparr>State := StateProcessing, WorkerID := ''wA''\<rparr>))) \<and>
   fst (lock_update ''wB'' (demo_fmt 7) (ID demo_job_b) demo_table1) = 0 \<and>
   lock_candidate (no_faults\<lparr>exec_err := True\<rparr>) ''wB'' (demo_fmt 7) demo_table1 demo_job_b =
     (demo_table1, Inl StoreError) \<and>
   snd (lock_candidate (no_faults\<lparr>exec_err := True\<rparr>) ''wB'' (demo_fmt 7) demo_table1 demo_job_b)
     \<noteq> Inr None"
  by code_simp

subsection \<open>C2: concurrent claims return distinct jobs\<close>



subsection \<open>C3: the dead-letter boundary\<close>

text \<open>
  C3 (as amended). \<^verbatim>\<open>MarkAsDead\<close> sets the state to \<^verbatim>\<open>dead\<close>, records the error and
  clears the worker id, and leaves \<^verbatim>\<open>attempts\<close> as it is. \<^verbatim>\<open>handleFailure\<close> takes the
  \<^verbatim>\<open>MarkAsDead\<close> branch exactly when \<^verbatim>\<open>CanRetry\<close> (evaluated before any increment) is
  false. Hence a job with \<^verbatim>\<open>max_retries = R >= 0\<close> and no attempts so far, failing on
  every execution, is in state \<^verbatim>\<open>failed\<close> with \<^verbatim>\<open>attempts = k\<close> after each of the first
  \<open>R\<close> executions and is \<^verbatim>\<open>dead\<close> with \<^verbatim>\<open>attempts = R\<close> after execution \<open>R + 1\<close>.
\<close>

theorem C3_dead_after_max_retries:
  assumes "0 \<le>s MaxRetries j" and "Attempts j = 0"
  shows "Attempts (MarkAsDead now' msg j') = Attempts j' \<and>
         State (MarkAsDead now' msg j') = StateDead \<and>
         Error (MarkAsDead now' msg j') = msg \<and>
         WorkerID (MarkAsDead now' msg j') = [] \<and>
         (handleFailure_job add cfg now1 now2 j' e out =
            MarkAsDead now2 (if out \<noteq> [] then e @ [CHR 0x0A] @ ''Output: '' @ out else e) j'
          \<longleftrightarrow> \<not> CanRetry j') \<and>
         State (failed_executions (unat (MaxRetries j) + 1) add cfg now w e out j) = StateDead \<and>
         Attempts (failed_executions (unat (MaxRetries j) + 1) add cfg now w e out j) = MaxRetries j \<and>
         (\<forall>k. 0 < k \<and> k \<le> unat (MaxRetries j) \<longrightarrow>
            State (failed_executions k add cfg now w e out j) = StateFailed \<and>
            Attempts (failed_executions k add cfg now w e out j) = of_nat k)"
proof -
  have dead: "handleFailure_job add cfg now1 now2 j' e out =
            MarkAsDead now2 (if out \<noteq> [] then e @ [CHR 0x0A] @ ''Output: '' @ out else e) j'
          \<longleftrightarrow> \<not> CanRetry j'"
  proof
    assume eq: "handleFailure_job add cfg now1 now2 j' e out =
            MarkAsDead now2 (if out \<noteq> [] then e @ [CHR 0x0A] @ ''Output: '' @ out else e) j'"
    show "\<not> CanRetry j'"
    proof
      assume "CanRetry j'"
      then have "State (handleFailure_job add cfg now1 now2 j' e out) = StateFailed"
        by (simp add: handleFailure_job_def MarkAsFailed_def Let_def)
      with eq show False by (simp add: MarkAsDead_def state_neqs)
    qed
  next
    assume "\<not> CanRetry j'"
    then show "handleFailure_job add cfg now1 now2 j' e out =
            MarkAsDead now2 (if out \<noteq> [] then e @ [CHR 0x0A] @ ''Output: '' @ out else e) j'"
      by (simp add: handleFailure_job_def Let_def)
  qed
  have upto: "\<forall>k. 0 < k \<and> k \<le> unat (MaxRetries j) \<longrightarrow>
            State (failed_executions k add cfg now w e out j) = StateFailed \<and>
            Attempts (failed_executions k add cfg now w e out j) = of_nat k"
    using failed_executions_upto[OF assms] by blast
  show ?thesis
    using dead upto failed_executions_final[OF assms, of add cfg now w e out]
    by (simp add: MarkAsDead_def)
qed

text \<open>The theorem at \<^verbatim>\<open>max_retries = 2\<close>: dead after three executions, with two attempts.\<close>

theorem C3_dead_after_max_retries_witness:
  "0 \<le>s MaxRetries (NewJob ''j1'' (0::nat) ''exit 1'' 2) \<and>
   Attempts (NewJob ''j1'' (0::nat) ''exit 1'' 2) = 0 \<and>
   State (failed_executions 3 demo_add demo_cfg 0 ''w1'' ''exit status 1'' []
            (NewJob ''j1'' (0::nat) ''exit 1'' 2)) = StateDead \<and>
   Attempts (failed_executions 3 demo_add demo_cfg 0 ''w1'' ''exit status 1'' []
            (NewJob ''j1'' (0::nat) ''exit 1'' 2)) = 2"
proof -
  have a: "0 \<le>s MaxRetries (NewJob ''j1'' (0::nat) ''exit 1'' 2)"
    by (simp add: NewJob_def word_sle_eq)
  have b: "Attempts (NewJob ''j1'' (0::nat) ''exit 1'' 2) = 0"
    by (simp add: NewJob_def)
  have c: "unat (2::64 word) + 1 = 3"
    by simp
  have d: "MaxRetries (NewJob ''j1'' (0::nat) ''exit 1'' 2) = 2"
    by (simp add: NewJob_def)
  note th = C3_dead_after_max_retries[OF a b, where add=demo_add and cfg=demo_cfg and now=0
      and w="''w1''" and e="''exit status 1''" and out="[]"]
  note tl = th[THEN conjunct2, THEN conjunct2, THEN conjunct2, THEN conjunct2, THEN conjunct2]
  from tl[THEN conjunct1] tl[THEN conjunct2, THEN conjunct1] a b
  show ?thesis unfolding d c by (intro conjI)
qed

text \<open>
  C3 as stated fails: with \<^verbatim>\<open>max_retries = 2\<close> the job is dead after three failed
  executions with \<^verbatim>\<open>attempts = 2\<close>, not 3, and \<^verbatim>\<open>MarkAsDead\<close> does not add one to
  \<^verbatim>\<open>attempts\<close>.
\<close>

theorem C3_counterexample:
  "State (failed_executions 3 demo_add demo_cfg 0 ''w1'' ''exit status 1'' []
            (NewJob ''j1'' (0::nat) ''exit 1'' 2)) = StateDead \<and>
   Attempts (failed_executions 3 demo_add demo_cfg 0 ''w1'' ''exit status 1'' []
            (NewJob ''j1'' (0::nat) ''exit 1'' 2)) = 2 \<and>
   Attempts (failed_executions 3 demo_add demo_cfg 0 ''w1'' ''exit status 1'' []
            (NewJob ''j1'' (0::nat) ''exit 1'' 2)) \<noteq> 2 + 1 \<and>
   Attempts (MarkAsDead (3::nat) ''exit status 1'' demo_processing)
     \<noteq> Attempts demo_processing + 1"
  by (simp add: numeral_3_eq_3 failed_execution_def handleFailure_job_def NewJob_def
      MarkAsProcessing_def MarkAsFailed_def MarkAsDead_def CanRetry_def Let_def
      GetNextRetryAt_def demo_processing_def word_sless_alt)

subsection \<open>C4: a claimed job and its retry time\<close>

text \<open>
  C4 (as amended). \<^verbatim>\<open>MarkAsProcessing\<close> sets the state to \<^verbatim>\<open>processing\<close> and the
  worker id to the one given, and leaves \<^verbatim>\<open>next_retry_at\<close> as it is. Likewise, when
  \<^verbatim>\<open>GetNextPendingJob\<close> returns a job, on a table that satisfies its primary key, the
  row of that job is in \<^verbatim>\<open>processing\<close> with the caller's worker id and has the
  \<^verbatim>\<open>next_retry_at\<close> it had before, which is also the one of the job returned.
\<close>

theorem C4_claim_keeps_next_retry_at:
  assumes "primary_key T"
    and "GetNextPendingJob parse f w now1 now2 T = (T', Inr (Some j'))"
  shows "State (MarkAsProcessing now w j) = StateProcessing \<and>
         WorkerID (MarkAsProcessing now w j) = w \<and>
         NextRetryAt (MarkAsProcessing now w j) = NextRetryAt j \<and>
         (\<exists>r r'. find (\<lambda>r. col_id r = ID j') T = Some r \<and>
                 find (\<lambda>r. col_id r = ID j') T' = Some r' \<and>
                 col_state r' = StateProcessing \<and>
                 col_worker_id r' = Some w \<and>
                 col_next_retry_at r' = col_next_retry_at r \<and>
                 State j' = StateProcessing \<and> WorkerID j' = w \<and>
                 NextRetryAt j' = map_option parse (col_next_retry_at r))"
proof -
  from assms(2) obtain c where c: "select_candidate now1 T = Some c"
    and T': "T' = map (\<lambda>r. if lock_guard (col_id c) r then lock_set w now2 r else r) T"
    and j': "j' = (scanJob parse c)\<lparr>State := StateProcessing, WorkerID := w\<rparr>"
    by (rule GetNextPendingJob_success)
  note sel = select_candidate_Some(1,2)[OF c]
  have id: "ID j' = col_id c" by (simp add: j' scanJob_def)
  have f: "find (\<lambda>r. col_id r = col_id c) T = Some c"
    by (rule find_by_primary_key[OF assms(1) sel(1)])
  have guard: "lock_guard (col_id c) c"
    using runnable_lockable[OF sel(2)] by (simp add: lock_guard_def)
  have "find (\<lambda>r. col_id r = col_id c) T' =
          map_option (\<lambda>r. if lock_guard (col_id c) r then lock_set w now2 r else r)
            (find (\<lambda>r. col_id r = col_id c) T)"
    unfolding T' by (rule find_map_same_id) (simp add: lock_set_def)
  with f guard have f': "find (\<lambda>r. col_id r = col_id c) T' = Some (lock_set w now2 c)"
    by simp
  have row: "col_state (lock_set w now2 c) = StateProcessing"
    "col_worker_id (lock_set w now2 c) = Some w"
    "col_next_retry_at (lock_set w now2 c) = col_next_retry_at c"
    by (simp_all add: lock_set_def)
  have job: "State j' = StateProcessing" "WorkerID j' = w"
    "NextRetryAt j' = map_option parse (col_next_retry_at c)"
    by (cases "col_next_retry_at c"; simp add: j' scanJob_def)+
  from f f' row job id
  have "\<exists>r r'. find (\<lambda>r. col_id r = ID j') T = Some r \<and>
                 find (\<lambda>r. col_id r = ID j') T' = Some r' \<and>
                 col_state r' = StateProcessing \<and>
                 col_worker_id r' = Some w \<and>
                 col_next_retry_at r' = col_next_retry_at r \<and>
                 State j' = StateProcessing \<and> WorkerID j' = w \<and>
                 NextRetryAt j' = map_option parse (col_next_retry_at r)"
    by simp
  then show ?thesis by (simp add: MarkAsProcessing_def)
qed

text \<open>Claiming \<open>b\<close> on the example table.\<close>

theorem C4_claim_keeps_next_retry_at_witness:
  "primary_key demo_table \<and>
   GetNextPendingJob demo_parse no_faults ''wA'' (demo_fmt 5) (demo_fmt 6) demo_table =
     (demo_table1, Inr (Some (demo_job_b\<lparr>State := StateProcessing, WorkerID := ''wA''\<rparr>))) \<and>
   (\<exists>r r'. find (\<lambda>r. col_id r = ID (demo_job_b\<lparr>State := StateProcessing, WorkerID := ''wA''\<rparr>))
              demo_table = Some r \<and>
           find (\<lambda>r. col_id r = ID (demo_job_b\<lparr>State := StateProcessing, WorkerID := ''wA''\<rparr>))
              demo_table1 = Some r' \<and>
           col_state r' = StateProcessing \<and>
           col_worker_id r' = Some ''wA'' \<and>
           col_next_retry_at r' = col_next_retry_at r)"
proof -
  from C4_claim_keeps_next_retry_at[OF demo_pk demo_claim_b, THEN conjunct2, THEN conjunct2,
      THEN conjunct2]
  have "\<exists>r r'. find (\<lambda>r. col_id r = ID (demo_job_b\<lparr>State := StateProcessing, WorkerID := ''wA''\<rparr>))
              demo_table = Some r \<and>
           find (\<lambda>r. col_id r = ID (demo_job_b\<lparr>State := StateProcessing, WorkerID := ''wA''\<rparr>))
              demo_table1 = Some r' \<and>
           col_state r' = StateProcessing \<and>
           col_worker_id r' = Some ''wA'' \<and>
           col_next_retry_at r' = col_next_retry_at r"
    by blast
  with demo_pk demo_claim_b show ?thesis by (intro conjI)
qed

text \<open>
  C4 as stated fails: job \<open>b\<close> had failed with \<^verbatim>\<open>next_retry_at = 4\<close>; after
  \<^verbatim>\<open>MarkAsProcessing\<close>, and in its row after the claim, it is in \<^verbatim>\<open>processing\<close> and
  \<^verbatim>\<open>next_retry_at\<close> is still set.
\<close>

theorem C4_counterexample:
  "State demo_job_b = StateFailed \<and>
   NextRetryAt demo_job_b = Some 4 \<and>
   State (MarkAsProcessing 6 ''wA'' demo_job_b) = StateProcessing \<and>
   NextRetryAt (MarkAsProcessing 6 ''wA'' demo_job_b) \<noteq> None \<and>
   fst (GetNextPendingJob demo_parse no_faults ''wA'' (demo_fmt 5) (demo_fmt 6) demo_table)
     = demo_table1 \<and>
   col_id (demo_table1 ! 2) = ''b'' \<and>
   col_state (demo_table1 ! 2) = StateProcessing \<and>
   col_next_retry_at (demo_table1 ! 2) \<noteq> None"
  by code_simp

subsection \<open>C5: a failed job and its attempts\<close>

text \<open>
  C5 (as amended). Whenever \<^verbatim>\<open>handleFailure\<close> leaves the job in state \<^verbatim>\<open>failed\<close>,
  \<^verbatim>\<open>CanRetry\<close> held before, \<^verbatim>\<open>next_retry_at\<close> is set, \<^verbatim>\<open>attempts\<close> has grown by one
  without wrapping and \<^verbatim>\<open>attempts <= max_retries\<close>; and the row saved has state
  \<^verbatim>\<open>failed\<close>, a \<^verbatim>\<open>next_retry_at\<close> and \<^verbatim>\<open>attempts <= max_retries\<close>.
\<close>

theorem C5_failed_attempts_le_max_retries:
  assumes "State (handleFailure_job add cfg now1 now2 j e out) = StateFailed"
  shows "CanRetry j \<and>
         NextRetryAt (handleFailure_job add cfg now1 now2 j e out) \<noteq> None \<and>
         Attempts (handleFailure_job add cfg now1 now2 j e out) = Attempts j + 1 \<and>
         sint (Attempts (handleFailure_job add cfg now1 now2 j e out)) = sint (Attempts j) + 1 \<and>
         Attempts (handleFailure_job add cfg now1 now2 j e out)
           \<le>s MaxRetries (handleFailure_job add cfg now1 now2 j e out) \<and>
         (\<exists>r. find (\<lambda>r. col_id r = ID j)
                 (fst (handleFailure add fmt cfg False now1 now2 T j e out)) = Some r \<and>
              col_state r = StateFailed \<and> col_next_retry_at r \<noteq> None \<and>
              col_attempts r \<le>s col_max_retries r)"
proof -
  let ?j = "handleFailure_job add cfg now1 now2 j e out"
  have can: "CanRetry j"
  proof (rule ccontr)
    assume "\<not> CanRetry j"
    then have "State ?j = StateDead"
      by (simp add: handleFailure_job_def MarkAsDead_def Let_def)
    with assms show False by (simp add: state_neqs)
  qed
  then have lt: "Attempts j <s MaxRetries j" by (simp add: CanRetry_def)
  from can have shape: "NextRetryAt ?j \<noteq> None" "Attempts ?j = Attempts j + 1"
    "MaxRetries ?j = MaxRetries j" "ID ?j = ID j"
    by (simp_all add: handleFailure_job_def MarkAsFailed_def GetNextRetryAt_def Let_def)
  have le: "Attempts ?j \<le>s MaxRetries ?j"
    using sless_succ_sle[OF lt] shape by simp
  obtain r where r: "find (\<lambda>r. col_id r = ID ?j) (fst (SaveJob fmt False T ?j)) = Some r"
    "r = (case find (\<lambda>r. col_id r = ID ?j) T of None \<Rightarrow> insert_values fmt ?j
         | Some r0 \<Rightarrow> do_update_set (insert_values fmt ?j) r0)"
    using find_SaveJob[of ?j fmt T] by simp
  from saved_columns(2,3,4,6)[OF r(2)] assms shape(1) le
  have "col_state r = StateFailed" "col_next_retry_at r \<noteq> None"
    "col_attempts r \<le>s col_max_retries r"
    by simp_all
  with r(1) shape(4)
  have "\<exists>r. find (\<lambda>r. col_id r = ID j)
                 (fst (handleFailure add fmt cfg False now1 now2 T j e out)) = Some r \<and>
              col_state r = StateFailed \<and> col_next_retry_at r \<noteq> None \<and>
              col_attempts r \<le>s col_max_retries r"
    by (simp add: handleFailure_def Let_def)
  with can shape le sint64_succ[OF lt] show ?thesis by simp
qed

text \<open>The first failure of a job with \<^verbatim>\<open>max_retries = 1\<close>.\<close>

theorem C5_failed_attempts_le_max_retries_witness:
  "State (handleFailure_job demo_add demo_cfg 7 7 demo_processing ''exit status 1'' []) = StateFailed \<and>
   NextRetryAt (handleFailure_job demo_add demo_cfg 7 7 demo_processing ''exit status 1'' []) \<noteq> None \<and>
   Attempts (handleFailure_job demo_add demo_cfg 7 7 demo_processing ''exit status 1'' [])
     \<le>s MaxRetries (handleFailure_job demo_add demo_cfg 7 7 demo_processing ''exit status 1'' [])"
proof -
  have a: "State (handleFailure_job demo_add demo_cfg 7 7 demo_processing ''exit status 1'' []) = StateFailed"
    by (simp add: handleFailure_job_def demo_processing_def CanRetry_def MarkAsFailed_def
        Let_def word_sless_alt)
  note th = C5_failed_attempts_le_max_retries[OF a, where fmt = demo_fmt and T = "[]"]
  from a th[THEN conjunct2, THEN conjunct1]
    th[THEN conjunct2, THEN conjunct2, THEN conjunct2, THEN conjunct2, THEN conjunct1]
  show ?thesis by (intro conjI)
qed

text \<open>
  C5 as stated fails: after the first failure of a job with \<^verbatim>\<open>max_retries = 1\<close> the
  state is \<^verbatim>\<open>failed\<close> and \<^verbatim>\<open>attempts = 1\<close>, which is not below \<^verbatim>\<open>max_retries\<close>.
\<close>

theorem C5_counterexample:
  "State demo_processing = StateProcessing \<and>
   State (handleFailure_job demo_add demo_cfg 7 7 demo_processing ''exit status 1'' []) = StateFailed \<and>
   \<not> (Attempts (handleFailure_job demo_add demo_cfg 7 7 demo_processing ''exit status 1'' [])
        <s MaxRetries (handleFailure_job demo_add demo_cfg 7 7 demo_processing ''exit status 1'' []))"
  by (simp add: handleFailure_job_def demo_processing_def CanRetry_def MarkAsFailed_def
      Let_def word_sless_alt)

subsection \<open>C6: the backoff delay\<close>

text \<open>
  C6, at \<^verbatim>\<open>attempts = 1\<close> and \<^verbatim>\<open>base = 2.5\<close> (both exact as \<^verbatim>\<open>float64\<close>): the delay
  computed is two seconds, not the 2.5 seconds of \<^verbatim>\<open>min(base^attempts, 3600)\<close>, because
  \<^verbatim>\<open>time.Duration(delaySeconds)\<close> drops the fraction before the multiplication by
  \<^verbatim>\<open>time.Second\<close>; the next retry time is the clock plus those two seconds.
\<close>

theorem C6_backoff_truncates:
  "CalculateBackoff 1 (5 / 2) = 2 * Second \<and>
   real_of_int (sint (CalculateBackoff 1 (5 / 2)))
     \<noteq> min ((5 / 2) ^ 1) 3600 * real_of_int (sint Second) \<and>
   NextRetryTime demo_add 10 1 (5 / 2) = 12"
  by (simp add: CalculateBackoff_def NextRetryTime_def demo_add_def float_to_int64_def Second_def
      maxDelaySeconds_def Let_def word_sless_alt)

subsection \<open>C7: completing a job\<close>

text \<open>
  C7 (as amended). \<^verbatim>\<open>MarkAsCompleted\<close> sets the state to \<^verbatim>\<open>completed\<close>, the output to
  the one given and \<^verbatim>\<open>updated_at\<close> to the clock, and leaves the error as it is;
  \<^verbatim>\<open>handleSuccess\<close> saves exactly that job, so the row saved has state \<^verbatim>\<open>completed\<close>,
  the output, and the error the job carried.
\<close>

theorem C7_mark_completed_keeps_error:
  "State (MarkAsCompleted now out j) = StateCompleted \<and>
   Output (MarkAsCompleted now out j) = out \<and>
   UpdatedAt (MarkAsCompleted now out j) = now \<and>
   Error (MarkAsCompleted now out j) = Error j \<and>
   snd (handleSuccess fmt False now T j out) = MarkAsCompleted now out j \<and>
   (\<exists>r. find (\<lambda>r. col_id r = ID j) (fst (handleSuccess fmt False now T j out)) = Some r \<and>
        col_state r = StateCompleted \<and> col_output r = Some out \<and>
        col_error r = Some (Error j))"
proof -
  let ?j = "MarkAsCompleted now out j"
  have id: "ID ?j = ID j" by (simp add: MarkAsCompleted_def)
  obtain r where r: "find (\<lambda>r. col_id r = ID ?j) (fst (SaveJob fmt False T ?j)) = Some r"
    "r = (case find (\<lambda>r. col_id r = ID ?j) T of None \<Rightarrow> insert_values fmt ?j
         | Some r0 \<Rightarrow> do_update_set (insert_values fmt ?j) r0)"
    using find_SaveJob[of ?j fmt T] by simp
  from saved_columns(2,8,9)[OF r(2)]
  have "col_state r = StateCompleted" "col_output r = Some out" "col_error r = Some (Error j)"
    by (simp_all add: MarkAsCompleted_def)
  with r(1) id show ?thesis
    by (simp add: handleSuccess_def handleSuccess_job_def Let_def MarkAsCompleted_def)
qed

text \<open>A job that failed once and then succeeds keeps the error of the failure.\<close>

theorem C7_mark_completed_keeps_error_witness:
  "State (MarkAsCompleted 9 ''ok'' demo_retried) = StateCompleted \<and>
   Output (MarkAsCompleted 9 ''ok'' demo_retried) = ''ok'' \<and>
   Error (MarkAsCompleted 9 ''ok'' demo_retried) = ''exit status 1''"
proof -
  note th = C7_mark_completed_keeps_error[of 9 "''ok''" demo_retried]
  have "Error demo_retried = ''exit status 1''" by (simp add: demo_retried_def)
  with th[THEN conjunct1] th[THEN conjunct2, THEN conjunct1]
    th[THEN conjunct2, THEN conjunct2, THEN conjunct2, THEN conjunct1]
  show ?thesis by simp
qed

text \<open>
  C7 as stated fails: a job in \<^verbatim>\<open>processing\<close> that failed before is \<^verbatim>\<open>completed\<close>
  afterwards with its worker id and its error still set.
\<close>

theorem C7_counterexample:
  "State demo_retried = StateProcessing \<and>
   State (MarkAsCompleted 9 ''ok'' demo_retried) = StateCompleted \<and>
   WorkerID (MarkAsCompleted 9 ''ok'' demo_retried) \<noteq> [] \<and>
   Error (MarkAsCompleted 9 ''ok'' demo_retried) \<noteq> []"
  by (simp add: MarkAsCompleted_def demo_retried_def)

subsection \<open>C8: the default of \<^verbatim>\<open>max_retries\<close> at enqueue\<close>

text \<open>
  C8, for the payload \<^verbatim>\<open>{"command":"echo hi"}\<close> with \<^verbatim>\<open>max_retries = 5\<close> configured:
  \<^verbatim>\<open>FromJSON\<close> has already replaced the absent \<^verbatim>\<open>max_retries\<close> by 3, so the test
  \<^verbatim>\<open>j.MaxRetries == 0\<close> of the enqueue command never holds and the job is saved with
  \<^verbatim>\<open>max_retries = 3\<close>. The absent id is replaced by the generated one.
\<close>

theorem C8_enqueue_default_is_three:
  "cfg_MaxRetries demo_cfg = 5 \<and>
   map_option MaxRetries (demo_unmarshal demo_payload) = Some 0 \<and>
   map_sum id MaxRetries
     (snd (enqueueCmd demo_unmarshal demo_is_zero demo_fmt demo_cfg False ''uuid-1'' 7 []
             demo_payload)) = Inr 3 \<and>
   map col_max_retries
     (fst (enqueueCmd demo_unmarshal demo_is_zero demo_fmt demo_cfg False ''uuid-1'' 7 []
             demo_payload)) = [3] \<and>
   map_sum id ID
     (snd (enqueueCmd demo_unmarshal demo_is_zero demo_fmt demo_cfg False ''uuid-1'' 7 []
             demo_payload)) = Inr ''uuid-1''"
  by code_simp

subsection \<open>C9: saving and reading back\<close>

text \<open>
  C9 (as amended). \<^verbatim>\<open>SaveJob\<close> followed by \<^verbatim>\<open>GetJob\<close> of the same id, both without
  driver error, yields a job with the same id, command, state, attempts, max_retries,
  worker id, error and output; \<^verbatim>\<open>next_retry_at\<close> is present exactly when it was, and
  it and \<^verbatim>\<open>updated_at\<close> are the saved instants formatted and parsed again.
  \<^verbatim>\<open>created_at\<close> is the saved instant formatted and parsed again when the id was not
  in the table; when it was, \<^verbatim>\<open>created_at\<close> is the one the table already had.
\<close>

theorem C9_save_get_round_trip:
  "snd (SaveJob fmt False T j) = None \<and>
   (\<exists>g. GetJob parse False (fst (SaveJob fmt False T j)) (ID j) = Inr g \<and>
        ID g = ID j \<and> Command g = Command j \<and> State g = State j \<and>
        Attempts g = Attempts j \<and> MaxRetries g = MaxRetries j \<and>
        WorkerID g = WorkerID j \<and> Error g = Error j \<and> Output g = Output j \<and>
        (NextRetryAt g = None \<longleftrightarrow> NextRetryAt j = None) \<and>
        NextRetryAt g = map_option (\<lambda>t. parse (fmt t)) (NextRetryAt j) \<and>
        UpdatedAt g = parse (fmt (UpdatedAt j)) \<and>
        CreatedAt g =
          (case find (\<lambda>r. col_id r = ID j) T of
             None \<Rightarrow> parse (fmt (CreatedAt j))
           | Some r0 \<Rightarrow> parse (col_created_at r0)))"
proof -
  define r' where "r' = (case find (\<lambda>r. col_id r = ID j) T of None \<Rightarrow> insert_values fmt j
                         | Some r0 \<Rightarrow> do_update_set (insert_values fmt j) r0)"
  have get: "GetJob parse False (fst (SaveJob fmt False T j)) (ID j) = Inr (scanJob parse r')"
    using find_SaveJob[of j fmt T] by (simp add: GetJob_def r'_def)
  have id: "ID (scanJob parse r') = ID j"
    by (cases "find (\<lambda>r. col_id r = ID j) T")
       (auto simp: r'_def scanJob_def insert_values_def do_update_set_def dest: find_Some_iff[THEN iffD1])
  have created: "CreatedAt (scanJob parse r') =
          (case find (\<lambda>r. col_id r = ID j) T of
             None \<Rightarrow> parse (fmt (CreatedAt j))
           | Some r0 \<Rightarrow> parse (col_created_at r0))"
    by (cases "find (\<lambda>r. col_id r = ID j) T")
       (simp_all add: r'_def scanJob_def insert_values_def do_update_set_def)
  note rest = scanJob_saved[OF r'_def, of parse]
  have "snd (SaveJob fmt False T j) = None" by (simp add: SaveJob_def)
  with get id created rest show ?thesis by simp
qed

text \<open>A job that is new to the example table comes back as it was.\<close>

theorem C9_save_get_round_trip_witness:
  "(\<exists>g. GetJob demo_parse False (fst (SaveJob demo_fmt False demo_table demo_retried)) (ID demo_retried)
          = Inr g \<and>
        ID g = ID demo_retried \<and> Command g = Command demo_retried \<and>
        State g = State demo_retried \<and> Attempts g = Attempts demo_retried) \<and>
   GetJob demo_parse False (fst (SaveJob demo_fmt False demo_table demo_retried)) ''j2''
     = Inr demo_retried"
proof -
  note th = C9_save_get_round_trip[of demo_fmt demo_table demo_retried demo_parse]
  have run: "GetJob demo_parse False (fst (SaveJob demo_fmt False demo_table demo_retried)) ''j2''
     = Inr demo_retried"
    by code_simp
  from th[THEN conjunct2] run show ?thesis by blast
qed

text \<open>
  C9 as stated fails: job \<open>c\<close> is in the table with \<^verbatim>\<open>created_at = 4\<close>; saved again
  with \<^verbatim>\<open>created_at = 9\<close> it is read back with \<^verbatim>\<open>created_at = 4\<close>, and the two instants
  have different texts.
\<close>

theorem C9_counterexample:
  "Validate demo_resave = None \<and>
   ID demo_resave = ''c'' \<and>
   CreatedAt demo_resave = 9 \<and>
   map_sum id CreatedAt
     (GetJob demo_parse False (fst (SaveJob demo_fmt False demo_table demo_resave)) ''c'') = Inr 4 \<and>
   demo_fmt 4 \<noteq> demo_fmt 9"
  by code_simp

subsection \<open>C10: \<^verbatim>\<open>created_at\<close> is kept on update\<close>

text \<open>
  C10. When \<^verbatim>\<open>SaveJob\<close> (without driver error) is given a job whose id the table
  already has, the row of that id keeps its \<^verbatim>\<open>created_at\<close> and has the command, state,
  attempts, max_retries, \<^verbatim>\<open>updated_at\<close>, \<^verbatim>\<open>next_retry_at\<close>, worker id, error and output
  of the job given; no row is added and the rows of other ids are as before.
\<close>

theorem C10_save_keeps_created_at:
  assumes "find (\<lambda>r. col_id r = ID j) T = Some r0"
  shows "(\<exists>r1. find (\<lambda>r. col_id r = ID j) (fst (SaveJob fmt False T j)) = Some r1 \<and>
            col_created_at r1 = col_created_at r0 \<and>
            col_id r1 = ID j \<and> col_command r1 = Command j \<and> col_state r1 = State j \<and>
            col_attempts r1 = Attempts j \<and> col_max_retries r1 = MaxRetries j \<and>
            col_updated_at r1 = fmt (UpdatedAt j) \<and>
            col_next_retry_at r1 = map_option fmt (NextRetryAt j) \<and>
            col_worker_id r1 = Some (WorkerID j) \<and> col_error r1 = Some (Error j) \<and>
            col_output r1 = Some (Output j)) \<and>
         map col_id (fst (SaveJob fmt False T j)) = map col_id T \<and>
         (\<forall>k. k \<noteq> ID j \<longrightarrow>
            find (\<lambda>r. col_id r = k) (fst (SaveJob fmt False T j)) = find (\<lambda>r. col_id r = k) T)"
proof -
  define r1 where "r1 = do_update_set (insert_values fmt j) r0"
  have r1: "r1 = (case Some r0 of None \<Rightarrow> insert_values fmt j
                 | Some r \<Rightarrow> do_update_set (insert_values fmt j) r)"
    by (simp add: r1_def)
  have f: "find (\<lambda>r. col_id r = ID j) (fst (SaveJob fmt False T j)) = Some r1"
    using find_SaveJob[of j fmt T] assms by (simp add: r1_def)
  have "col_id r0 = ID j" using assms by (auto dest: find_Some_iff[THEN iffD1])
  then have keep: "col_created_at r1 = col_created_at r0" "col_id r1 = ID j"
    by (simp_all add: r1_def do_update_set_def)
  have mem: "ID j \<in> set (map col_id T)"
    using assms find_None_absent[of "ID j" T] by auto
  have ids: "map col_id (fst (SaveJob fmt False T j)) = map col_id T"
  proof -
    have "map col_id (map (\<lambda>r. if col_id r = ID j then do_update_set (insert_values fmt j) r else r) T)
          = map col_id T"
      by (induction T) (simp_all add: col_id_do_update_set)
    moreover have "col_id (insert_values fmt j) = ID j" by (simp add: insert_values_def)
    ultimately show ?thesis using mem by (simp only: SaveJob_def upsert_def if_True if_False fst_conv)
  qed
  have others: "\<forall>k. k \<noteq> ID j \<longrightarrow>
            find (\<lambda>r. col_id r = k) (fst (SaveJob fmt False T j)) = find (\<lambda>r. col_id r = k) T"
    using find_upsert_other[of _ "insert_values fmt j" T]
    by (simp add: SaveJob_def insert_values_def)
  from f keep saved_columns[OF r1] ids others show ?thesis by simp
qed

text \<open>
  Job \<open>c\<close> saved again with \<^verbatim>\<open>created_at = 9\<close>: the row keeps \<^verbatim>\<open>created_at = 4\<close> and
  takes the new \<^verbatim>\<open>updated_at\<close>.
\<close>

theorem C10_save_keeps_created_at_witness:
  "find (\<lambda>r. col_id r = ID demo_resave) demo_table = Some (demo_table ! 1) \<and>
   CreatedAt demo_resave = 9 \<and>
   col_created_at (demo_table ! 1) = demo_fmt 4 \<and>
   (\<exists>r1. find (\<lambda>r. col_id r = ID demo_resave) (fst (SaveJob demo_fmt False demo_table demo_resave))
            = Some r1 \<and>
         col_created_at r1 = col_created_at (demo_table ! 1) \<and>
         col_updated_at r1 = demo_fmt (UpdatedAt demo_resave))"
proof -
  have a: "find (\<lambda>r. col_id r = ID demo_resave) demo_table = Some (demo_table ! 1)"
    by code_simp
  have b: "CreatedAt demo_resave = 9" "col_created_at (demo_table ! 1) = demo_fmt 4"
    by code_simp+
  from C10_save_keeps_created_at[OF a, of demo_fmt, THEN conjunct1] a b
  show ?thesis by blast
qed

end
